theory Spec2Isabelle
  imports Main "HOL-Library.Word"
begin

section \<open>Python values\<close>

text \<open>
  The client moves untyped JSON in both directions: request payloads are Python dicts and
  \<^verbatim>\<open>response.json()\<close> yields whatever value the body decodes to (a dict, a list, a
  string, a number, a boolean or \<^verbatim>\<open>None\<close>). A float is kept as its IEEE-754 binary64 bit
  pattern; a dict as an association list in insertion order, its keys being strings.
\<close>

datatype pyval =
    PNone
  | PBool bool
  | PInt int
  | PFloat "64 word"
  | PStr string
  | PList "pyval list"
  | PDict "(string \<times> pyval) list"

text \<open>
  Python truthiness, as \<^verbatim>\<open>if x:\<close> and \<^verbatim>\<open>x or y\<close> test it: \<^verbatim>\<open>None\<close>, \<^verbatim>\<open>False\<close>, zero
  (for a float both \<^verbatim>\<open>0.0\<close> and \<^verbatim>\<open>-0.0\<close>, that is every bit but the sign being zero) and
  the empty string, list and dict are falsy; everything else is truthy.
\<close>

fun truthy :: "pyval \<Rightarrow> bool" where
  "truthy PNone = False"
| "truthy (PBool b) = b"
| "truthy (PInt i) = (i \<noteq> 0)"
| "truthy (PFloat w) = (take_bit 63 w \<noteq> 0)"
| "truthy (PStr s) = (s \<noteq> [])"
| "truthy (PList xs) = (xs \<noteq> [])"
| "truthy (PDict kvs) = (kvs \<noteq> [])"

text \<open>\<^verbatim>\<open>d[k] = v\<close> on a dict: an existing key keeps its place, a new key goes last.\<close>

fun setitem :: "(string \<times> pyval) list \<Rightarrow> string \<Rightarrow> pyval \<Rightarrow> (string \<times> pyval) list" where
  "setitem [] k v = [(k, v)]"
| "setitem ((k', v') # kvs) k v =
     (if k' = k then (k, v) # kvs else (k', v') # setitem kvs k v)"

text \<open>\<^verbatim>\<open>s.rstrip(chars)\<close>: every trailing character that occurs in \<^verbatim>\<open>chars\<close> is removed.\<close>

definition rstrip :: "string \<Rightarrow> string \<Rightarrow> string" where
  "rstrip s chars = rev (dropWhile (\<lambda>c. c \<in> set chars) (rev s))"

text \<open>\<^verbatim>\<open>str(n)\<close> of an integer, as the f-string \<^verbatim>\<open>f"API error: {status}"\<close> formats it.\<close>

definition digit :: "nat \<Rightarrow> char" where
  "digit d = ''0123456789'' ! d"

fun str_nat :: "nat \<Rightarrow> string" where
  "str_nat n = (if n < 10 then [digit n] else str_nat (n div 10) @ [digit (n mod 10)])"

declare str_nat.simps [simp del]

definition str_int :: "int \<Rightarrow> string" where
  "str_int i = (if i < 0 then CHR ''-'' # str_nat (nat (- i)) else str_nat (nat i))"


section \<open>exceptions.py: the error taxonomy\<close>

text \<open>
  \<^verbatim>\<open>ACISError\<close> carries \<^verbatim>\<open>message\<close>, \<^verbatim>\<open>status_code\<close> (default \<^verbatim>\<open>None\<close>) and
  \<^verbatim>\<open>response\<close> (default \<^verbatim>\<open>None\<close>, here \<open>PNone\<close>); \<^verbatim>\<open>RateLimitError\<close> adds
  \<^verbatim>\<open>reset_at\<close>. The message is whatever value the caller passes, not necessarily a string.
\<close>

record acis_error =
  message :: pyval
  status_code :: "int option"
  response :: pyval

text \<open>An exception raised by the transport, seen through the two \<^verbatim>\<open>except\<close> clauses of
  \<^verbatim>\<open>_request\<close>: whether it is an instance of \<^verbatim>\<open>requests.exceptions.Timeout\<close> and of
  \<^verbatim>\<open>requests.exceptions.ConnectionError\<close> (the library's \<^verbatim>\<open>ConnectTimeout\<close> is both).\<close>

record transport_exception =
  isinstance_Timeout :: bool
  isinstance_ConnectionError :: bool

text \<open>
  Everything a call of the client can raise: the four typed errors, the \<^verbatim>\<open>AttributeError\<close>
  of calling \<^verbatim>\<open>.get\<close> on a value that is not a dict, and a transport exception that no
  \<^verbatim>\<open>except\<close> clause catches.
\<close>

datatype exn =
    AuthenticationError acis_error
  | RateLimitError acis_error pyval
  | ValidationError acis_error
  | APIError acis_error
  | AttributeError
  | Uncaught transport_exception

text \<open>\<^verbatim>\<open>data.get(key, default)\<close>: defined on dicts only.\<close>

fun py_get :: "pyval \<Rightarrow> string \<Rightarrow> pyval \<Rightarrow> exn + pyval" where
  "py_get (PDict kvs) k dflt = Inr (case map_of kvs k of None \<Rightarrow> dflt | Some v \<Rightarrow> v)"
| "py_get _ k dflt = Inl AttributeError"


section \<open>The HTTP transport\<close>

text \<open>
  The keyword arguments of \<^verbatim>\<open>self._session.request(...)\<close> together with the headers the
  session adds, and the response as the classifier reads it: \<open>resp_json\<close> is the result of
  \<^verbatim>\<open>response.json()\<close>, with \<open>None\<close> when that call raises \<^verbatim>\<open>ValueError\<close>.
\<close>

record http_request =
  req_method :: string
  req_url :: string
  req_params :: pyval
  req_json :: pyval
  req_timeout :: int
  req_headers :: "(string \<times> string) list"

record http_response =
  resp_status_code :: int
  resp_text :: string
  resp_json :: "pyval option"

datatype transport_result = Raises transport_exception | Returns http_response

text \<open>
  The network is the log of the requests issued so far and the remote side, which answers a
  request given that log. \<open>session_request\<close> is the one place where a request leaves the
  process.
\<close>

record network =
  sent :: "http_request list"
  remote :: "http_request list \<Rightarrow> http_request \<Rightarrow> transport_result"

definition session_request :: "http_request \<Rightarrow> network \<Rightarrow> transport_result \<times> network" where
  "session_request rq net = (remote net (sent net) rq, net\<lparr>sent := sent net @ [rq]\<rparr>)"


section \<open>client.py: ACISClient\<close>

record client =
  api_key :: string
  base_url :: string
  timeout :: int
  session_headers :: "(string \<times> string) list"

definition DEFAULT_BASE_URL :: string where
  "DEFAULT_BASE_URL = ''https://acis-trading.com/api/v1''"

text \<open>
  \<^verbatim>\<open>__init__(api_key, base_url=None, timeout=30)\<close>. An argument that is \<^verbatim>\<open>None\<close> is
  \<open>None\<close> here; \<^verbatim>\<open>not api_key\<close> and \<^verbatim>\<open>base_url or DEFAULT\<close> treat \<^verbatim>\<open>None\<close> and the
  empty string alike. \<open>session_headers\<close> holds the three entries that
  \<^verbatim>\<open>headers.update\<close> sets on the fresh session. The network is passed through untouched:
  nothing in the constructor sends a request.
\<close>

definition init ::
  "string option \<Rightarrow> string option \<Rightarrow> int \<Rightarrow> network \<Rightarrow> (exn + client) \<times> network" where
  "init api_key' base_url' timeout' net =
     (case api_key' of
        None \<Rightarrow>
          (Inl (AuthenticationError
             \<lparr>message = PStr ''API key is required'', status_code = None, response = PNone\<rparr>), net)
      | Some k \<Rightarrow>
          if k = [] then
            (Inl (AuthenticationError
               \<lparr>message = PStr ''API key is required'', status_code = None, response = PNone\<rparr>), net)
          else
            (Inr \<lparr>api_key = k,
                  base_url = rstrip (case base_url' of
                                       None \<Rightarrow> DEFAULT_BASE_URL
                                     | Some u \<Rightarrow> if u = [] then DEFAULT_BASE_URL else u) ''/'',
                  timeout = timeout',
                  session_headers =
                    [(''Authorization'', ''Bearer '' @ k),
                     (''Content-Type'', ''application/json''),
                     (''User-Agent'', ''acis-python-sdk/1.0.0'')]\<rparr>, net))"

text \<open>\<^verbatim>\<open>_handle_response\<close>: decode, then the chain of status tests in the source's order.\<close>

definition handle_response :: "http_response \<Rightarrow> exn + pyval" where
  "handle_response resp =
     (let data = (case resp_json resp of
                    Some d \<Rightarrow> d
                  | None \<Rightarrow> PDict [(''detail'', PStr (resp_text resp))])
      in
        if resp_status_code resp = 200 then Inr data
        else if resp_status_code resp = 401 then
          (case py_get data ''detail'' (PStr ''Invalid API key'') of
             Inl e \<Rightarrow> Inl e
           | Inr m \<Rightarrow> Inl (AuthenticationError
               \<lparr>message = m, status_code = Some 401, response = data\<rparr>))
        else if resp_status_code resp = 429 then
          (case py_get data ''detail'' (PStr ''Rate limit exceeded'') of
             Inl e \<Rightarrow> Inl e
           | Inr m \<Rightarrow>
               (case py_get data ''reset_at'' PNone of
                  Inl e \<Rightarrow> Inl e
                | Inr r \<Rightarrow> Inl (RateLimitError
                    \<lparr>message = m, status_code = Some 429, response = data\<rparr> r)))
        else if resp_status_code resp = 422 then
          (case py_get data ''detail'' (PStr ''Validation error'') of
             Inl e \<Rightarrow> Inl e
           | Inr m \<Rightarrow> Inl (ValidationError
               \<lparr>message = m, status_code = Some 422, response = data\<rparr>))
        else
          (case py_get data ''detail''
                  (PStr (''API error: '' @ str_int (resp_status_code resp))) of
             Inl e \<Rightarrow> Inl e
           | Inr m \<Rightarrow> Inl (APIError
               \<lparr>message = m, status_code = Some (resp_status_code resp), response = data\<rparr>)))"

text \<open>
  \<^verbatim>\<open>_request(method, endpoint, params=None, json=None)\<close>: one call of the session, the two
  \<^verbatim>\<open>except\<close> clauses in their order, then the classifier.
\<close>

definition request ::
  "client \<Rightarrow> string \<Rightarrow> string \<Rightarrow> pyval \<Rightarrow> pyval \<Rightarrow> network \<Rightarrow> (exn + pyval) \<times> network" where
  "request self method endpoint params json net =
     (let url = base_url self @ endpoint;
          (outcome, net') =
            session_request
              \<lparr>req_method = method, req_url = url, req_params = params, req_json = json,
               req_timeout = timeout self, req_headers = session_headers self\<rparr> net
      in case outcome of
           Raises e \<Rightarrow>
             if isinstance_Timeout e then
               (Inl (APIError \<lparr>message = PStr ''Request timed out'',
                               status_code = Some 408, response = PNone\<rparr>), net')
             else if isinstance_ConnectionError e then
               (Inl (APIError \<lparr>message = PStr ''Connection failed'',
                               status_code = Some 503, response = PNone\<rparr>), net')
             else (Inl (Uncaught e), net')
         | Returns resp \<Rightarrow> (handle_response resp, net'))"

text \<open>
  \<^verbatim>\<open>generate_portfolio(strategy, max_positions=20, risk_tolerance="moderate",
  investment_amount=None)\<close>.
\<close>

definition generate_portfolio ::
  "client \<Rightarrow> string \<Rightarrow> int \<Rightarrow> string \<Rightarrow> pyval \<Rightarrow> network \<Rightarrow> (exn + pyval) \<times> network" where
  "generate_portfolio self strategy max_positions risk_tolerance investment_amount net =
     (let payload = [(''strategy'', PStr strategy),
                     (''max_positions'', PInt max_positions),
                     (''risk_tolerance'', PStr risk_tolerance)];
          payload = (if truthy investment_amount
                     then setitem payload ''investment_amount'' investment_amount
                     else payload)
      in request self ''POST'' ''/portfolios/generate'' PNone (PDict payload) net)"

text \<open>The convenience methods: each fixes the strategy and leaves the other parameters of
  \<^verbatim>\<open>generate_portfolio\<close> at their defaults.\<close>

definition get_value_portfolio :: "client \<Rightarrow> int \<Rightarrow> network \<Rightarrow> (exn + pyval) \<times> network" where
  "get_value_portfolio self max_positions =
     generate_portfolio self ''value'' max_positions ''moderate'' PNone"

definition get_growth_portfolio :: "client \<Rightarrow> int \<Rightarrow> network \<Rightarrow> (exn + pyval) \<times> network" where
  "get_growth_portfolio self max_positions =
     generate_portfolio self ''growth'' max_positions ''moderate'' PNone"

definition get_dividend_portfolio :: "client \<Rightarrow> int \<Rightarrow> network \<Rightarrow> (exn + pyval) \<times> network" where
  "get_dividend_portfolio self max_positions =
     generate_portfolio self ''dividend'' max_positions ''moderate'' PNone"

definition get_adaptive_portfolio :: "client \<Rightarrow> int \<Rightarrow> network \<Rightarrow> (exn + pyval) \<times> network" where
  "get_adaptive_portfolio self max_positions =
     generate_portfolio self ''adaptive'' max_positions ''moderate'' PNone"

text \<open>\<^verbatim>\<open>health_check()\<close>: GET \<^verbatim>\<open>/health\<close>, no parameters and no body.\<close>

definition health_check :: "client \<Rightarrow> network \<Rightarrow> (exn + pyval) \<times> network" where
  "health_check self = request self ''GET'' ''/health'' PNone PNone"


section \<open>Observers and example data used in the statements\<close>

text \<open>The fields every typed error shares (those of \<^verbatim>\<open>ACISError\<close>); \<open>None\<close> for an
  exception outside the taxonomy.\<close>

fun acis_fields :: "exn \<Rightarrow> acis_error option" where
  "acis_fields (AuthenticationError f) = Some f"
| "acis_fields (RateLimitError f r) = Some f"
| "acis_fields (ValidationError f) = Some f"
| "acis_fields (APIError f) = Some f"
| "acis_fields AttributeError = None"
| "acis_fields (Uncaught e) = None"

definition is_typed_error :: "exn \<Rightarrow> bool" where
  "is_typed_error e = (acis_fields e \<noteq> None)"

definition raised_message :: "exn + pyval \<Rightarrow> pyval option" where
  "raised_message res =
     (case res of Inl e \<Rightarrow> map_option message (acis_fields e) | Inr d \<Rightarrow> None)"

text \<open>The default message of each row of the decision table, as the specification lists
  them.\<close>

definition default_message :: "int \<Rightarrow> string" where
  "default_message st =
     (if st = 401 then ''Invalid API key''
      else if st = 429 then ''Rate limit exceeded''
      else if st = 422 then ''Validation error''
      else ''API error: '' @ str_int st)"

text \<open>The base-URL normalisation as the specification words it, "removing exactly one
  trailing slash (if present)", to be compared with what \<open>init\<close> stores.\<close>

definition strip_one_trailing_slash :: "string \<Rightarrow> string" where
  "strip_one_trailing_slash u = (if u \<noteq> [] \<and> last u = CHR ''/'' then butlast u else u)"

text \<open>A network for the concrete examples: nothing sent yet, and a remote side that answers
  every request with status 200 and the health payload of the specification's scenario.\<close>

definition health_body :: pyval where
  "health_body = PDict [(''status'', PStr ''healthy''), (''version'', PStr ''1.0.0'')]"

definition healthy_remote :: "http_request list \<Rightarrow> http_request \<Rightarrow> transport_result" where
  "healthy_remote log rq =
     Returns \<lparr>resp_status_code = 200,
              resp_text = ''{\"status\":\"healthy\",\"version\":\"1.0.0\"}'',
              resp_json = Some health_body\<rparr>"

definition mock_network :: network where
  "mock_network = \<lparr>sent = [], remote = healthy_remote\<rparr>"

text \<open>A remote side that cannot be reached: every request raises the given exception.\<close>

definition failing_remote ::
  "transport_exception \<Rightarrow> http_request list \<Rightarrow> http_request \<Rightarrow> transport_result" where
  "failing_remote e log rq = Raises e"

text \<open>The client that \<open>init\<close> builds for the key \<open>acis_live_xxx\<close> and a local server.\<close>

definition local_client :: client where
  "local_client =
     \<lparr>api_key = ''acis_live_xxx'', base_url = ''http://localhost:8000'', timeout = 30,
      session_headers =
        [(''Authorization'', ''Bearer acis_live_xxx''),
         (''Content-Type'', ''application/json''),
         (''User-Agent'', ''acis-python-sdk/1.0.0'')]\<rparr>"


section \<open>Facts about \<open>rstrip\<close> and \<open>str_int\<close>\<close>

lemma rstrip_slash_decomp: "\<exists>n. s = rstrip s ''/'' @ replicate n CHR ''/''"
proof -
  let ?P = "\<lambda>c. c \<in> set ''/''"
  let ?t = "rev (takeWhile ?P (rev s))"
  have "rev s = takeWhile ?P (rev s) @ dropWhile ?P (rev s)" by simp
  then have split: "s = rev (dropWhile ?P (rev s)) @ ?t"
    by (metis rev_append rev_rev_ident)
  have "\<forall>c \<in> set ?t. c = CHR ''/''"
    by (auto dest: set_takeWhileD)
  then have "?t = replicate (length ?t) CHR ''/''"
    by (metis replicate_length_same)
  with split show ?thesis unfolding rstrip_def by metis
qed

lemma rstrip_slash_no_trailing: "rstrip s ''/'' \<noteq> v @ ''/''"
proof
  assume a: "rstrip s ''/'' = v @ ''/''"
  let ?P = "\<lambda>c. c \<in> set ''/''"
  from a have "dropWhile ?P (rev s) = CHR ''/'' # rev v"
    unfolding rstrip_def
    by (metis rev_append rev_rev_ident rev_singleton_conv append_Cons append_Nil)
  moreover have "dropWhile ?P (rev s) \<noteq> [] \<Longrightarrow> \<not> ?P (hd (dropWhile ?P (rev s)))"
    by (rule hd_dropWhile)
  ultimately show False by simp
qed

lemma rstrip_slash_id: "s = [] \<or> last s \<noteq> CHR ''/'' \<Longrightarrow> rstrip s ''/'' = s"
  unfolding rstrip_def by (cases s rule: rev_cases) auto

lemma rstrip_slash_append: "rstrip (s @ ''/'') ''/'' = rstrip s ''/''"
  unfolding rstrip_def by simp

lemma rstrip_default: "rstrip DEFAULT_BASE_URL ''/'' = DEFAULT_BASE_URL"
  unfolding rstrip_def DEFAULT_BASE_URL_def by simp

lemma str_int_500: "str_int 500 = ''500''"
  by code_simp

lemma init_local_client:
  "init (Some ''acis_live_xxx'') (Some ''http://localhost:8000'') 30 net = (Inr local_client, net)"
  "init (Some ''acis_live_xxx'') (Some ''http://localhost:8000/'') 30 net = (Inr local_client, net)"
  by (simp_all add: init_def rstrip_def local_client_def)


section \<open>The response classifier\<close>

text \<open>
  The decision table where the classifier follows it. When the body decodes to some value
  \<open>data\<close>: status 200 returns \<open>data\<close> unchanged, whatever JSON value it is. When
  \<open>data\<close> is a JSON object: status 401 raises an
  Authentication error, 429 a RateLimit error whose \<open>reset_at\<close> is the body's
  \<open>reset_at\<close> entry when there is one and \<open>None\<close> otherwise, 422 a Validation error and
  every other status a Generic API error whose message is \<open>API error: <status>\<close> when the
  body has no \<open>detail\<close> entry; each of these errors carries the status as \<open>status_code\<close>
  and the decoded body as \<open>response\<close>, and the body's \<open>detail\<close> entry as its message when
  there is one.
\<close>

lemma handle_response_decision_table:
  assumes "resp_json resp = Some data"
  shows "(resp_status_code resp = 200 \<longrightarrow> handle_response resp = Inr data) \<and>
    (\<forall>kvs. data = PDict kvs \<longrightarrow>
      (resp_status_code resp = 401 \<longrightarrow>
         handle_response resp = Inl (AuthenticationError
           \<lparr>message = (case map_of kvs ''detail'' of
                         None \<Rightarrow> PStr ''Invalid API key'' | Some v \<Rightarrow> v),
            status_code = Some 401, response = data\<rparr>)) \<and>
      (resp_status_code resp = 429 \<longrightarrow>
         handle_response resp = Inl (RateLimitError
           \<lparr>message = (case map_of kvs ''detail'' of
                         None \<Rightarrow> PStr ''Rate limit exceeded'' | Some v \<Rightarrow> v),
            status_code = Some 429, response = data\<rparr>
           (case map_of kvs ''reset_at'' of None \<Rightarrow> PNone | Some v \<Rightarrow> v))) \<and>
      (resp_status_code resp = 422 \<longrightarrow>
         handle_response resp = Inl (ValidationError
           \<lparr>message = (case map_of kvs ''detail'' of
                         None \<Rightarrow> PStr ''Validation error'' | Some v \<Rightarrow> v),
            status_code = Some 422, response = data\<rparr>)) \<and>
      (resp_status_code resp \<notin> {200, 401, 429, 422} \<longrightarrow>
         handle_response resp = Inl (APIError
           \<lparr>message = (case map_of kvs ''detail'' of
                         None \<Rightarrow> PStr (''API error: '' @ str_int (resp_status_code resp))
                       | Some v \<Rightarrow> v),
            status_code = Some (resp_status_code resp), response = data\<rparr>)))"
  using assms by (auto simp: handle_response_def split: option.splits)

text \<open>Two instances of the table: the specification's 429 scenario with a \<open>detail\<close> and
  a \<open>reset_at\<close>, and a 500 whose body is the empty object.\<close>

lemma handle_response_decision_table_witness:
  "handle_response
     \<lparr>resp_status_code = 429,
      resp_text = ''{\"detail\":\"too many requests\",\"reset_at\":\"2024-01-01T00:00:00Z\"}'',
      resp_json = Some (PDict [(''detail'', PStr ''too many requests''),
                               (''reset_at'', PStr ''2024-01-01T00:00:00Z'')])\<rparr>
   = Inl (RateLimitError
       \<lparr>message = PStr ''too many requests'', status_code = Some 429,
        response = PDict [(''detail'', PStr ''too many requests''),
                          (''reset_at'', PStr ''2024-01-01T00:00:00Z'')]\<rparr>
       (PStr ''2024-01-01T00:00:00Z'')) \<and>
   handle_response \<lparr>resp_status_code = 500, resp_text = ''{}'', resp_json = Some (PDict [])\<rparr>
   = Inl (APIError
       \<lparr>message = PStr ''API error: 500'', status_code = Some 500, response = PDict []\<rparr>)"
  using handle_response_decision_table
    [of "\<lparr>resp_status_code = 429,
          resp_text = ''{\"detail\":\"too many requests\",\"reset_at\":\"2024-01-01T00:00:00Z\"}'',
          resp_json = Some (PDict [(''detail'', PStr ''too many requests''),
                                   (''reset_at'', PStr ''2024-01-01T00:00:00Z'')])\<rparr>"
        "PDict [(''detail'', PStr ''too many requests''),
                (''reset_at'', PStr ''2024-01-01T00:00:00Z'')]"]
    handle_response_decision_table
    [of "\<lparr>resp_status_code = 500, resp_text = ''{}'', resp_json = Some (PDict [])\<rparr>"
        "PDict []"]
  by (simp add: str_int_500)

text \<open>
  C1. The claim asks for an Authentication error on every 401 whose body decodes as JSON.
  The code misses it when the body is valid JSON but not an object: a 401 response whose
  body is the JSON array \<open>[]\<close> decodes to a list, the 401 branch sets out to raise
  \<^verbatim>\<open>AuthenticationError\<close> and \<^verbatim>\<open>data.get\<close>, evaluated for its first argument, raises
  \<^verbatim>\<open>AttributeError\<close> instead. The branch for a body that is not JSON wraps the text in a
  dict so that \<^verbatim>\<open>.get\<close> is safe; a decoded body that is not a dict gets no such care.
\<close>

theorem handle_response_401_array_body:
  "handle_response \<lparr>resp_status_code = 401, resp_text = ''[]'', resp_json = Some (PList [])\<rparr>
     = Inl AttributeError"
  by (simp add: handle_response_def)

text \<open>
  C2. When the body is not valid JSON the classifier behaves exactly as on the decoded body
  \<open>{detail: <raw text>}\<close>: status 200 returns that mapping, and every other status raises
  a typed error whose message is the raw text, whose \<open>status_code\<close> is the status and
  whose \<open>response\<close> is the synthesized mapping; for 401 it is an Authentication error.
\<close>

theorem handle_response_not_json:
  assumes "resp_json resp = None"
  shows "handle_response resp =
           handle_response (resp\<lparr>resp_json := Some (PDict [(''detail'', PStr (resp_text resp))])\<rparr>) \<and>
         (resp_status_code resp = 200 \<longrightarrow>
            handle_response resp = Inr (PDict [(''detail'', PStr (resp_text resp))])) \<and>
         (resp_status_code resp \<noteq> 200 \<longrightarrow>
            (\<exists>e f. handle_response resp = Inl e \<and> acis_fields e = Some f \<and>
                   message f = PStr (resp_text resp) \<and>
                   status_code f = Some (resp_status_code resp) \<and>
                   response f = PDict [(''detail'', PStr (resp_text resp))])) \<and>
         (resp_status_code resp = 401 \<longrightarrow>
            handle_response resp = Inl (AuthenticationError
              \<lparr>message = PStr (resp_text resp), status_code = Some 401,
               response = PDict [(''detail'', PStr (resp_text resp))]\<rparr>))"
  using assms by (simp add: handle_response_def Let_def)

text \<open>C2, an instance: a 401 whose body is an HTML page.\<close>

theorem handle_response_not_json_witness:
  "handle_response
     \<lparr>resp_status_code = 401, resp_text = ''<html>Unauthorized</html>'', resp_json = None\<rparr>
   = Inl (AuthenticationError
       \<lparr>message = PStr ''<html>Unauthorized</html>'', status_code = Some 401,
        response = PDict [(''detail'', PStr ''<html>Unauthorized</html>'')]\<rparr>)"
proof -
  let ?r = "\<lparr>resp_status_code = 401, resp_text = ''<html>Unauthorized</html>'',
             resp_json = None\<rparr>"
  have h: "resp_json ?r = None" by simp
  from handle_response_not_json [OF h, THEN conjunct2, THEN conjunct2, THEN conjunct2]
  show ?thesis by simp
qed

text \<open>
  C9. On a status other than 200 with a JSON-object body, the raised error's message is the
  value bound to \<open>detail\<close> whenever the key is present, also when that value is falsy
  (\<open>null\<close>, the empty string), and then it is not the default message; the default message
  of the status is used when the key is absent.
\<close>

theorem detail_value_is_message:
  assumes "resp_status_code resp \<noteq> 200" and "resp_json resp = Some (PDict kvs)"
  shows "(\<forall>v. map_of kvs ''detail'' = Some v \<longrightarrow>
            raised_message (handle_response resp) = Some v \<and>
            (\<not> truthy v \<longrightarrow> v \<noteq> PStr (default_message (resp_status_code resp)))) \<and>
         (map_of kvs ''detail'' = None \<longrightarrow>
            raised_message (handle_response resp) =
              Some (PStr (default_message (resp_status_code resp))))"
  using assms
  by (auto simp: handle_response_def raised_message_def default_message_def)

text \<open>C9, three instances: \<open>detail\<close> bound to \<open>null\<close>, to the empty string, and
  absent.\<close>

theorem detail_value_is_message_witness:
  "raised_message (handle_response
     \<lparr>resp_status_code = 401, resp_text = ''{\"detail\":null}'',
      resp_json = Some (PDict [(''detail'', PNone)])\<rparr>) = Some PNone \<and>
   raised_message (handle_response
     \<lparr>resp_status_code = 422, resp_text = ''{\"detail\":\"\"}'',
      resp_json = Some (PDict [(''detail'', PStr [])])\<rparr>) = Some (PStr []) \<and>
   raised_message (handle_response
     \<lparr>resp_status_code = 429, resp_text = ''{}'',
      resp_json = Some (PDict [])\<rparr>) = Some (PStr ''Rate limit exceeded'')"
  using detail_value_is_message
    [of "\<lparr>resp_status_code = 401, resp_text = ''{\"detail\":null}'',
          resp_json = Some (PDict [(''detail'', PNone)])\<rparr>" "[(''detail'', PNone)]"]
    detail_value_is_message
    [of "\<lparr>resp_status_code = 422, resp_text = ''{\"detail\":\"\"}'',
          resp_json = Some (PDict [(''detail'', PStr [])])\<rparr>" "[(''detail'', PStr [])]"]
    detail_value_is_message
    [of "\<lparr>resp_status_code = 429, resp_text = ''{}'', resp_json = Some (PDict [])\<rparr>" "[]"]
  by (simp add: default_message_def)

text \<open>
  Where the classifier keeps to typed errors. It returns a value if and only if the status
  is 200. On every other status it raises, and what it raises is a typed error whenever the
  body is not valid JSON or decodes to a JSON object.
\<close>

lemma success_iff_status_200:
  "((\<exists>d. handle_response resp = Inr d) \<longleftrightarrow> resp_status_code resp = 200) \<and>
   (resp_status_code resp \<noteq> 200 \<longrightarrow> (\<exists>e. handle_response resp = Inl e)) \<and>
   (resp_status_code resp \<noteq> 200 \<and>
    (resp_json resp = None \<or> (\<exists>kvs. resp_json resp = Some (PDict kvs))) \<longrightarrow>
      (\<exists>e. handle_response resp = Inl e \<and> is_typed_error e))"
  by (auto simp: handle_response_def Let_def is_typed_error_def split: option.splits sum.splits)

text \<open>Two instances: a 204 with an empty body raises a Generic API error, and a 200
  returns the body.\<close>

lemma success_iff_status_200_witness:
  "handle_response \<lparr>resp_status_code = 204, resp_text = [], resp_json = None\<rparr>
     = Inl (APIError \<lparr>message = PStr [], status_code = Some 204,
                     response = PDict [(''detail'', PStr [])]\<rparr>) \<and>
   is_typed_error (APIError \<lparr>message = PStr [], status_code = Some 204,
                              response = PDict [(''detail'', PStr [])]\<rparr>) \<and>
   handle_response \<lparr>resp_status_code = 200, resp_text = ''[]'', resp_json = Some (PList [])\<rparr>
     = Inr (PList [])"
  using success_iff_status_200
          [of "\<lparr>resp_status_code = 204, resp_text = [], resp_json = None\<rparr>"]
        success_iff_status_200
          [of "\<lparr>resp_status_code = 200, resp_text = ''[]'', resp_json = Some (PList [])\<rparr>"]
  by (simp add: handle_response_def is_typed_error_def)

text \<open>
  C10. The claim asks for a typed error on every status other than 200. The code misses it
  when the body is valid JSON but not an object: a 201 response whose body is the JSON
  array \<open>[]\<close> reaches the final \<^verbatim>\<open>raise APIError(data.get(...))\<close>, where
  \<^verbatim>\<open>data.get\<close> raises \<^verbatim>\<open>AttributeError\<close>, which is not one of the typed errors. It is
  the defect of C1, met on another status.
\<close>

theorem handle_response_201_array_body:
  "handle_response \<lparr>resp_status_code = 201, resp_text = ''[]'', resp_json = Some (PList [])\<rparr>
     = Inl AttributeError \<and>
   \<not> is_typed_error AttributeError"
  by (simp add: handle_response_def is_typed_error_def)


section \<open>The transport layer\<close>

text \<open>
  C3. When the session's call raises, \<open>request\<close> raises a Generic API error with status 408,
  message \<open>Request timed out\<close> and no response if the exception is a timeout, whether or not
  it is also a connection error (the timeout clause comes first); and a Generic API error
  with status 503, message \<open>Connection failed\<close> and no response if it is a connection error
  that is not a timeout. The two outcomes differ, so at most one of them is raised.
\<close>

theorem request_transport_failure:
  assumes "fst (session_request
             \<lparr>req_method = meth, req_url = base_url self @ endpoint, req_params = params,
              req_json = json, req_timeout = timeout self,
              req_headers = session_headers self\<rparr> net) = Raises e"
  shows "(isinstance_Timeout e \<longrightarrow>
            fst (request self meth endpoint params json net) =
              Inl (APIError \<lparr>message = PStr ''Request timed out'',
                              status_code = Some 408, response = PNone\<rparr>)) \<and>
         (\<not> isinstance_Timeout e \<and> isinstance_ConnectionError e \<longrightarrow>
            fst (request self meth endpoint params json net) =
              Inl (APIError \<lparr>message = PStr ''Connection failed'',
                              status_code = Some 503, response = PNone\<rparr>)) \<and>
         APIError \<lparr>message = PStr ''Request timed out'', status_code = Some 408,
                    response = PNone\<rparr> \<noteq>
         APIError \<lparr>message = PStr ''Connection failed'', status_code = Some 503,
                    response = PNone\<rparr>"
  using assms by (simp add: request_def session_request_def Let_def)

text \<open>C3, two instances on \<open>health_check\<close>: an exception that is both a timeout and a
  connection error gives 408, a connection error alone gives 503.\<close>

theorem request_transport_failure_witness:
  "fst (health_check local_client
          \<lparr>sent = [], remote = failing_remote
             \<lparr>isinstance_Timeout = True, isinstance_ConnectionError = True\<rparr>\<rparr>)
     = Inl (APIError \<lparr>message = PStr ''Request timed out'',
                     status_code = Some 408, response = PNone\<rparr>) \<and>
   fst (health_check local_client
          \<lparr>sent = [], remote = failing_remote
             \<lparr>isinstance_Timeout = False, isinstance_ConnectionError = True\<rparr>\<rparr>)
     = Inl (APIError \<lparr>message = PStr ''Connection failed'',
                     status_code = Some 503, response = PNone\<rparr>)"
  using request_transport_failure
          [where self = local_client and meth = "''GET''" and endpoint = "''/health''"
             and params = PNone and json = PNone
             and net = "\<lparr>sent = [], remote = failing_remote
                         \<lparr>isinstance_Timeout = True, isinstance_ConnectionError = True\<rparr>\<rparr>"
             and e = "\<lparr>isinstance_Timeout = True, isinstance_ConnectionError = True\<rparr>"]
        request_transport_failure
          [where self = local_client and meth = "''GET''" and endpoint = "''/health''"
             and params = PNone and json = PNone
             and net = "\<lparr>sent = [], remote = failing_remote
                         \<lparr>isinstance_Timeout = False, isinstance_ConnectionError = True\<rparr>\<rparr>"
             and e = "\<lparr>isinstance_Timeout = False, isinstance_ConnectionError = True\<rparr>"]
  by (simp add: health_check_def session_request_def failing_remote_def)


section \<open>Client construction\<close>

text \<open>
  C4. With an absent or empty API key, construction raises the Authentication error
  \<open>API key is required\<close>, returns no client and leaves the network as it was; with a
  non-empty key it returns a client holding that key and leaves the network as it was.
\<close>

theorem init_requires_api_key:
  "(ak = None \<or> ak = Some [] \<longrightarrow>
      init ak b t net =
        (Inl (AuthenticationError
           \<lparr>message = PStr ''API key is required'', status_code = None,
            response = PNone\<rparr>), net)) \<and>
   (\<forall>k. ak = Some k \<and> k \<noteq> [] \<longrightarrow>
      (\<exists>c. init ak b t net = (Inr c, net) \<and> api_key c = k))"
  by (auto simp: init_def)

text \<open>C4, three instances: no key, the empty key, and a key.\<close>

theorem init_requires_api_key_witness:
  "init None None 30 mock_network =
     (Inl (AuthenticationError
        \<lparr>message = PStr ''API key is required'', status_code = None,
         response = PNone\<rparr>), mock_network) \<and>
   init (Some []) None 30 mock_network =
     (Inl (AuthenticationError
        \<lparr>message = PStr ''API key is required'', status_code = None,
         response = PNone\<rparr>), mock_network) \<and>
   init (Some ''acis_live_xxx'') (Some ''http://localhost:8000'') 30 mock_network =
     (Inr local_client, mock_network)"
  using init_requires_api_key [of None None 30 mock_network]
        init_requires_api_key [of "Some []" None 30 mock_network]
        init_requires_api_key
          [of "Some ''acis_live_xxx''" "Some ''http://localhost:8000''" 30 mock_network]
  by (simp add: init_local_client)

text \<open>
  C6, as amended. With a non-empty key, construction stores: the production default when no
  base URL or the empty one is given; otherwise the given base URL with all of its trailing
  slashes removed, so that the stored URL never ends in a slash, and the given URL unchanged
  when it does not end in a slash.
\<close>

theorem init_base_url:
  assumes "k \<noteq> []"
  shows "\<exists>c. init (Some k) b t net = (Inr c, net) \<and>
     (case b of
        None \<Rightarrow> base_url c = DEFAULT_BASE_URL
      | Some u \<Rightarrow>
          if u = [] then base_url c = DEFAULT_BASE_URL
          else (\<exists>n. u = base_url c @ replicate n CHR ''/'') \<and>
               (\<forall>v. base_url c \<noteq> v @ ''/'') \<and>
               (last u \<noteq> CHR ''/'' \<longrightarrow> base_url c = u))"
  using assms rstrip_slash_decomp [of "the b"]
  by (auto simp: init_def rstrip_default rstrip_slash_no_trailing rstrip_slash_id
           split: option.splits)

text \<open>C6, an instance: one trailing slash is removed.\<close>

theorem init_base_url_witness:
  "init (Some ''acis_live_xxx'') (Some ''http://localhost:8000/'') 30 mock_network =
     (Inr local_client, mock_network) \<and>
   base_url local_client = ''http://localhost:8000''"
  using init_base_url [of "''acis_live_xxx''" "Some ''http://localhost:8000/''" 30 mock_network]
  by (simp add: init_local_client local_client_def)

text \<open>
  C6 as stated fails on a base URL that ends in two slashes: the code stores it without
  either of them, where removing exactly one would keep \<open>http://localhost:8000/\<close>.
\<close>

theorem init_two_trailing_slashes:
  "init (Some ''acis_live_xxx'') (Some ''http://localhost:8000//'') 30 mock_network =
     (Inr \<lparr>api_key = ''acis_live_xxx'', base_url = ''http://localhost:8000'', timeout = 30,
           session_headers =
             [(''Authorization'', ''Bearer acis_live_xxx''),
              (''Content-Type'', ''application/json''),
              (''User-Agent'', ''acis-python-sdk/1.0.0'')]\<rparr>, mock_network) \<and>
   strip_one_trailing_slash ''http://localhost:8000//'' = ''http://localhost:8000/''"
  by (simp add: init_def rstrip_def strip_one_trailing_slash_def)

text \<open>
  C7, as amended. For a non-empty base URL \<open>u\<close> that does not end in a slash, a client
  built with \<open>u\<close> and a client built with \<open>u/\<close> send a request for a path to the same
  URL, \<open>u\<close> followed by the path.
\<close>

theorem trailing_slash_same_url:
  assumes "u \<noteq> []" and "last u \<noteq> CHR ''/''"
      and "init k1 (Some u) t1 net1 = (Inr c1, net1')"
      and "init k2 (Some (u @ ''/'')) t2 net2 = (Inr c2, net2')"
  shows "req_url (last (sent (snd (request c1 meth path params json net)))) = u @ path \<and>
         req_url (last (sent (snd (request c2 meth path params json net)))) = u @ path"
  using assms
  by (auto simp: init_def request_def session_request_def Let_def
                 rstrip_slash_append rstrip_slash_id
           split: option.splits if_splits prod.splits transport_result.splits)

text \<open>C7, an instance: \<open>http://localhost:8000\<close> with and without the slash, for
  \<open>/health\<close>.\<close>

theorem trailing_slash_same_url_witness:
  "init (Some ''acis_live_xxx'') (Some ''http://localhost:8000'') 30 mock_network =
     (Inr local_client, mock_network) \<and>
   init (Some ''acis_live_xxx'') (Some ''http://localhost:8000/'') 30 mock_network =
     (Inr local_client, mock_network) \<and>
   req_url (last (sent (snd (request local_client ''GET'' ''/health'' PNone PNone mock_network))))
     = ''http://localhost:8000/health''"
  using trailing_slash_same_url
          [where u = "''http://localhost:8000''" and ?k1.0 = "Some ''acis_live_xxx''"
             and ?k2.0 = "Some ''acis_live_xxx''" and ?t1.0 = 30 and ?t2.0 = 30
             and ?net1.0 = mock_network and ?net2.0 = mock_network
             and ?c1.0 = local_client and ?c2.0 = local_client
             and ?net1' = mock_network and ?net2' = mock_network
             and meth = "''GET''" and path = "''/health''" and params = PNone
             and json = PNone and net = mock_network]
  by (simp add: init_local_client)

text \<open>
  C7 as stated fails for the empty base URL, which does not end in a slash: given the empty
  string the client falls back to the production default, given \<open>/\<close> it stores the empty
  string, and the two clients send \<open>/health\<close> to different URLs.
\<close>

theorem empty_base_url_differs:
  "init (Some ''k'') (Some []) 30 mock_network =
     (Inr \<lparr>api_key = ''k'', base_url = ''https://acis-trading.com/api/v1'', timeout = 30,
           session_headers = [(''Authorization'', ''Bearer k''),
               (''Content-Type'', ''application/json''),
               (''User-Agent'', ''acis-python-sdk/1.0.0'')]\<rparr>, mock_network) \<and>
   init (Some ''k'') (Some ''/'') 30 mock_network =
     (Inr \<lparr>api_key = ''k'', base_url = [], timeout = 30,
           session_headers = [(''Authorization'', ''Bearer k''),
               (''Content-Type'', ''application/json''),
               (''User-Agent'', ''acis-python-sdk/1.0.0'')]\<rparr>, mock_network) \<and>
   map req_url (sent (snd (health_check
       \<lparr>api_key = ''k'', base_url = ''https://acis-trading.com/api/v1'', timeout = 30,
        session_headers = [(''Authorization'', ''Bearer k''),
               (''Content-Type'', ''application/json''),
               (''User-Agent'', ''acis-python-sdk/1.0.0'')]\<rparr> mock_network)))
     = [''https://acis-trading.com/api/v1/health''] \<and>
   map req_url (sent (snd (health_check
       \<lparr>api_key = ''k'', base_url = [], timeout = 30,
        session_headers = [(''Authorization'', ''Bearer k''),
               (''Content-Type'', ''application/json''),
               (''User-Agent'', ''acis-python-sdk/1.0.0'')]\<rparr> mock_network)))
     = [''/health'']"
  by (simp add: init_def rstrip_def DEFAULT_BASE_URL_def health_check_def request_def
                session_request_def mock_network_def healthy_remote_def Let_def)


section \<open>Portfolio generation\<close>

text \<open>
  C5. \<open>generate_portfolio\<close> sends one POST to \<open>/portfolios/generate\<close> whose JSON body holds
  exactly \<open>strategy\<close>, \<open>max_positions\<close> and \<open>risk_tolerance\<close> at the given values,
  followed by \<open>investment_amount\<close> at its given value exactly when that value is truthy; a
  call with the amount 0 is the same as a call without an amount.
\<close>

theorem generate_portfolio_body:
  "sent (snd (generate_portfolio self strategy max_positions risk_tolerance
                investment_amount net)) =
     sent net @
       [\<lparr>req_method = ''POST'', req_url = base_url self @ ''/portfolios/generate'',
         req_params = PNone,
         req_json = PDict ([(''strategy'', PStr strategy),
                            (''max_positions'', PInt max_positions),
                            (''risk_tolerance'', PStr risk_tolerance)] @
                           (if truthy investment_amount
                            then [(''investment_amount'', investment_amount)] else [])),
         req_timeout = timeout self, req_headers = session_headers self\<rparr>] \<and>
   generate_portfolio self strategy max_positions risk_tolerance (PInt 0) net =
     generate_portfolio self strategy max_positions risk_tolerance PNone net"
  by (simp add: generate_portfolio_def request_def session_request_def Let_def
           split: prod.splits transport_result.splits)

text \<open>
  C8. Each convenience method gives, on every network, the result and the network that
  \<open>generate_portfolio\<close> gives with the corresponding strategy, the same \<open>max_positions\<close>,
  risk tolerance \<open>moderate\<close> and no investment amount.
\<close>

theorem convenience_wrappers:
  "get_value_portfolio self max_positions net =
     generate_portfolio self ''value'' max_positions ''moderate'' PNone net \<and>
   get_growth_portfolio self max_positions net =
     generate_portfolio self ''growth'' max_positions ''moderate'' PNone net \<and>
   get_dividend_portfolio self max_positions net =
     generate_portfolio self ''dividend'' max_positions ''moderate'' PNone net \<and>
   get_adaptive_portfolio self max_positions net =
     generate_portfolio self ''adaptive'' max_positions ''moderate'' PNone net"
  by (simp add: get_value_portfolio_def get_growth_portfolio_def
                get_dividend_portfolio_def get_adaptive_portfolio_def)

end
